theory Spec2Isabelle
  imports Complex_Main
begin

section \<open>The MGA sequencer of Temoa: data model\<close>

text \<open>
  The development follows \<^verbatim>\<open>mga_sequencer.py\<close>: the constructor
  \<^verbatim>\<open>MgaSequencer.__init__\<close>, the sequential first half of
  \<^verbatim>\<open>MgaSequencer.start\<close> (load, base solve, cost relaxation, pool start) and its
  second half (the iterative loop and the shutdown), which runs beside the worker
  processes and is therefore a step function driven by a schedule.
  Python floats are modelled as reals, Python ints as integers.
\<close>

subsection \<open>Configuration\<close>

text \<open>The two enumerations of \<^verbatim>\<open>mga_constants\<close>; the sequencer names one member of each
  (the defaults), every other member is \<open>Other_axis n\<close> resp. \<open>Other_weighting n\<close>.\<close>

datatype MgaAxis = TECH_CATEGORY_ACTIVITY | Other_axis nat

datatype MgaWeighting = HULL_EXPANSION | Other_weighting nat

fun axis_name :: "MgaAxis \<Rightarrow> string" where
  "axis_name TECH_CATEGORY_ACTIVITY = ''TECH_CATEGORY_ACTIVITY''"
| "axis_name (Other_axis n) = ''OTHER_AXIS''"

fun weighting_name :: "MgaWeighting \<Rightarrow> string" where
  "weighting_name HULL_EXPANSION = ''HULL_EXPANSION''"
| "weighting_name (Other_weighting n) = ''OTHER_WEIGHTING''"

text \<open>The dictionary \<^verbatim>\<open>config.mga_inputs\<close>: one optional entry per key the sequencer reads
  (\<open>None\<close>: the key is absent).\<close>

record mga_inputs =
  key_axis :: "MgaAxis option"
  key_weighting :: "MgaWeighting option"
  key_iteration_limit :: "int option"
  key_time_limit_hrs :: "real option"
  key_cost_epsilon :: "real option"

record TemoaConfig =
  input_database :: string
  output_database :: string
  source_trace :: bool
  save_lp_file :: bool
  save_duals :: bool
  save_excel :: bool
  solver_name :: string
  mga_inputs :: mga_inputs
  scenario :: string
  silent :: bool

text \<open>\<^verbatim>\<open>dict.get(key, default)\<close>.\<close>

definition dict_get :: "'a option \<Rightarrow> 'a \<Rightarrow> 'a" where
  "dict_get entry dflt = (case entry of None \<Rightarrow> dflt | Some v \<Rightarrow> v)"

subsection \<open>Errors, solver handles and side effects\<close>

datatype error =
    NotImplementedError string
  | AttributeError string
  | StopIteration

datatype TerminationCondition = optimal | infeasible | unbounded | maxTimeLimit | unknown

fun condition_name :: "TerminationCondition \<Rightarrow> string" where
  "condition_name optimal = ''optimal''"
| "condition_name infeasible = ''infeasible''"
| "condition_name unbounded = ''unbounded''"
| "condition_name maxTimeLimit = ''maxTimeLimit''"
| "condition_name unknown = ''unknown''"

type_synonym solver_options = "(string \<times> int) list"

text \<open>A solver handle: the APPSI HiGHS object, or what \<^verbatim>\<open>pyo.SolverFactory(name)\<close> returns
  together with its \<^verbatim>\<open>gurobi_options\<close> attribute when that was assigned.\<close>

datatype solver = Highs | SolverFactory string "solver_options option"

text \<open>What \<^verbatim>\<open>solve\<close> of a handle returns. The APPSI HiGHS object returns an APPSI result
  object, whose termination condition is \<^verbatim>\<open>res.termination_condition\<close> (as read in
  \<^verbatim>\<open>solve_instance_appsi\<close>) and which has no \<^verbatim>\<open>solver\<close> attribute. A handle made by
  \<^verbatim>\<open>pyo.SolverFactory\<close> returns a legacy result object, whose termination condition is
  \<^verbatim>\<open>res.solver.termination_condition\<close> (as read in \<^verbatim>\<open>solve_instance\<close>).\<close>

datatype results_kind = Appsi_results | Legacy_results

fun solve_result_kind :: "solver \<Rightarrow> results_kind" where
  "solve_result_kind Highs = Appsi_results"
| "solve_result_kind (SolverFactory nm go) = Legacy_results"

datatype log_level = DEBUG | INFO | WARNING

datatype log_arg = Str string | Num real | Int_arg int

text \<open>The working model: its name, whether the objective component \<^verbatim>\<open>TotalCost\<close> is
  present, and the constraint component \<^verbatim>\<open>cost_cap\<close> (an expression bounded from
  above) when it has been added.\<close>

datatype expr = TotalCost_rule string

record TemoaModel =
  model_name :: string
  TotalCost :: bool
  cost_cap :: "(expr \<times> real) option"

text \<open>Everything the sequencer does to the world outside its own attributes, in the
  order it does it.\<close>

datatype event =
    Sqlite_connect string
  | Log log_level string "log_arg list"
  | TableWriter_new
  | Clear_indexed_scenarios
  | Load_data_portal
  | Build_instance string bool
  | Solve string
  | Write_results string
  | Add_cost_cap expr real
  | Del_TotalCost
  | Get_manager MgaAxis MgaWeighting real real
  | Worker_start nat
  | Next_instance
  | Put_work "nat option"
  | Print string
  | Process_results nat
  | Write_capacity_tables nat int
  | Print_count int
  | Print_alive nat bool
  | Close_queue string
  | Finalize_tracker

subsection \<open>The sequencer object\<close>

text \<open>An attribute that \<^verbatim>\<open>__init__\<close> assigns on some branches only is an option:
  \<open>None\<close> means that reading it raises \<^verbatim>\<open>AttributeError\<close>.\<close>

record MgaSequencer =
  con :: string
  config :: TemoaConfig
  opt :: "solver option"
  std_opt :: "solver option"
  options :: "solver_options option"
  internal_stop :: bool
  mga_axis :: MgaAxis
  mga_weighting :: MgaWeighting
  iteration_limit :: int
  time_limit_hrs :: real
  cost_epsilon :: real
  solve_records :: "(expr \<times> real list) list"
  solve_count :: int
  orig_label :: string

section \<open>The constructor\<close>

definition gurobi_options_dict :: solver_options where
  "gurobi_options_dict = [(''Threads'', 4), (''TimeLimit'', 3600 * 2)]"

definition init_config :: "TemoaConfig \<Rightarrow> TemoaConfig" where
  "init_config c =
     (let c1 = (if save_lp_file c then c\<lparr>save_lp_file := False\<rparr> else c);
          c2 = (if save_duals c1 then c1\<lparr>save_duals := False\<rparr> else c1);
          c3 = (if save_excel c2 then c2\<lparr>save_excel := False\<rparr> else c2)
      in c3)"

definition init_solver ::
  "string \<Rightarrow> solver option \<times> solver option \<times> solver_options option" where
  "init_solver nm =
     (if nm = ''appsi_highs'' then (Some Highs, Some (SolverFactory ''appsi_highs'' None), None)
      else if nm = ''gurobi'' then
        (Some (SolverFactory ''gurobi'' (Some gurobi_options_dict)), None, Some gurobi_options_dict)
      else if nm = ''cbc'' then (Some (SolverFactory ''cbc'' None), None, Some [])
      else (None, None, None))"

definition init_events :: "TemoaConfig \<Rightarrow> event list" where
  "init_events c =
     [Sqlite_connect (input_database c)]
     @ (if \<not> source_trace c then
          [Log WARNING ''Performing MGA runs without source trace.  Recommend selecting source trace in config file.'' []]
        else [])
     @ (if save_lp_file c then [Log INFO ''Saving LP file is disabled during MGA runs.'' []] else [])
     @ (if save_duals c then [Log INFO ''Saving duals is disabled during MGA runs.'' []] else [])
     @ (if save_excel c then [Log INFO ''Saving excel is disabled during MGA runs.'' []] else [])
     @ (if key_axis (mga_inputs c) = None then
          [Log WARNING ''No MGA Axis specified.  Using default:  Activity by Tech Category'' []]
        else [])
     @ (if key_weighting (mga_inputs c) = None then
          [Log WARNING ''No MGA Weighting specified.  Using default: Hull Expansion'' []]
        else [])
     @ [TableWriter_new, Clear_indexed_scenarios,
        Log INFO ''Initialized MGA sequencer with MGA Axis %s and weighting %s''
          [Str (axis_name (dict_get (key_axis (mga_inputs c)) TECH_CATEGORY_ACTIVITY)),
           Str (weighting_name (dict_get (key_weighting (mga_inputs c)) HULL_EXPANSION))]]"

text \<open>\<^verbatim>\<open>MgaSequencer.__init__\<close>: the side effects in order, and the error raised or the
  object constructed.\<close>

definition init :: "TemoaConfig \<Rightarrow> event list \<times> (error + MgaSequencer)" where
  "init c =
     (if \<not> (input_database c = output_database c) then
        ([], Inl (NotImplementedError ''MGA assumes input and output databases are same''))
      else
        (case init_solver (solver_name c) of (o1, o2, o3) \<Rightarrow>
          (init_events c,
           Inr \<lparr> con = input_database c,
                 config = init_config c,
                 opt = o1,
                 std_opt = o2,
                 options = o3,
                 internal_stop = False,
                 mga_axis = dict_get (key_axis (mga_inputs c)) TECH_CATEGORY_ACTIVITY,
                 mga_weighting = dict_get (key_weighting (mga_inputs c)) HULL_EXPANSION,
                 iteration_limit = dict_get (key_iteration_limit (mga_inputs c)) 20,
                 time_limit_hrs = dict_get (key_time_limit_hrs (mga_inputs c)) 12,
                 cost_epsilon = dict_get (key_cost_epsilon (mga_inputs c)) (5 / 100),
                 solve_records = [],
                 solve_count = 0,
                 orig_label = scenario (init_config c) \<rparr>)))"

section \<open>External collaborators\<close>

text \<open>What the generator's instance sequence yields: a candidate instance (an opaque
  identity) or the string \<^verbatim>\<open>'waiting'\<close>.\<close>

datatype candidate = Waiting | Instance nat

text \<open>The collaborators the sequencer calls and whose code is elsewhere, as parameters:
  the outcome of the base solve (termination condition, value of the objective, duration
  in seconds), the factory of the vector manager, and the three operations of the vector
  manager on its state \<open>'g\<close>: the instance generator (\<open>None\<close>: the generator is
  exhausted and \<^verbatim>\<open>next\<close> raises \<^verbatim>\<open>StopIteration\<close>), the stop predicate and the
  ingestion of a result.\<close>

record 'g collaborators =
  base_status :: TerminationCondition
  base_cost :: real
  base_seconds :: nat
  get_manager :: "MgaAxis \<Rightarrow> TemoaModel \<Rightarrow> MgaWeighting \<Rightarrow> string \<Rightarrow> real \<Rightarrow> real \<Rightarrow> 'g"
  next_instance :: "'g \<Rightarrow> (candidate \<times> 'g) option"
  stop_resolving :: "'g \<Rightarrow> bool"
  process_results :: "nat \<Rightarrow> 'g \<Rightarrow> 'g"

text \<open>\<^verbatim>\<open>build_instance\<close> returns a fresh Temoa model, named after the scenario: it has
  the objective \<^verbatim>\<open>TotalCost\<close> and no component \<^verbatim>\<open>cost_cap\<close>.\<close>

definition build_instance :: "string \<Rightarrow> TemoaModel" where
  "build_instance nm = \<lparr> model_name = nm, TotalCost = True, cost_cap = None \<rparr>"

section \<open>Queues and workers\<close>

text \<open>\<^verbatim>\<open>Queue.put(item, block)\<close> and \<^verbatim>\<open>Queue.get(block)\<close> of a queue of capacity
  \<open>cap\<close>, without timeout: a call returns, raises \<^verbatim>\<open>Full\<close> resp. \<^verbatim>\<open>Empty\<close>
  (only when \<open>block\<close> is false), or waits (only when \<open>block\<close> is true).\<close>

datatype 'a put_outcome = Put_ok "'a list" | Put_Full | Put_waits

datatype 'a get_outcome = Got 'a "'a list" | Get_Empty | Get_waits

definition queue_put :: "nat \<Rightarrow> 'a list \<Rightarrow> 'a \<Rightarrow> bool \<Rightarrow> 'a put_outcome" where
  "queue_put cap q x block =
     (if length q < cap then Put_ok (q @ [x]) else if block then Put_waits else Put_Full)"

definition queue_get :: "'a list \<Rightarrow> bool \<Rightarrow> 'a get_outcome" where
  "queue_get q block =
     (case q of [] \<Rightarrow> (if block then Get_waits else Get_Empty) | x # xs \<Rightarrow> Got x xs)"

definition work_capacity :: nat where "work_capacity = 5"

definition result_capacity :: nat where "result_capacity = 5"

definition num_workers :: nat where "num_workers = 6"

datatype wstate = Receiving | Solving nat | Sending nat | Exited

record worker =
  worker_number :: nat
  wstate :: wstate
  sentinels :: nat

definition is_alive :: "worker \<Rightarrow> bool" where
  "is_alive w = (wstate w \<noteq> Exited)"

definition new_worker :: "nat \<Rightarrow> worker" where
  "new_worker i = \<lparr> worker_number = i, wstate = Receiving, sentinels = 0 \<rparr>"

section \<open>The state of a run\<close>

datatype pc =
    Loop_test
  | Put_instance
  | Get_result
  | Shutdown_put nat
  | Join nat
  | Close_log
  | Close_work
  | Close_result
  | Finalize
  | Finished
  | Crashed error

record 'g pipeline =
  self :: MgaSequencer
  model :: TemoaModel
  vector_manager :: 'g
  cur_instance :: candidate
  pc :: pc
  work_queue :: "nat option list"
  result_queue :: "nat list"
  log_closed :: bool
  work_closed :: bool
  result_closed :: bool
  workers :: "worker list"
  events :: "event list"
  clock :: nat

section \<open>The sequential half of start\<close>

definition relax_events :: "MgaSequencer \<Rightarrow> TemoaModel \<Rightarrow> real \<Rightarrow> event list" where
  "relax_events sq m tot_cost =
     [Log INFO ''Completed initial solve with total cost:  %0.2f'' [Num tot_cost],
      Log INFO ''Relaxing cost by fraction:  %0.3f'' [Num (cost_epsilon sq)],
      Add_cost_cap (TotalCost_rule (model_name m)) ((1 + cost_epsilon sq) * tot_cost),
      Del_TotalCost]"

definition relax_model :: "MgaSequencer \<Rightarrow> TemoaModel \<Rightarrow> real \<Rightarrow> TemoaModel" where
  "relax_model sq m tot_cost =
     m\<lparr> cost_cap := Some (TotalCost_rule (model_name m), (1 + cost_epsilon sq) * tot_cost),
        TotalCost := False \<rparr>"

text \<open>The base solve in two parts: the call of \<^verbatim>\<open>self.opt.solve\<close> with the log of its
  duration, and, once \<^verbatim>\<open>res.solver.termination_condition\<close> has been read, the log of the
  termination condition and \<^verbatim>\<open>write_results\<close>.\<close>

definition solve_events :: "'g collaborators \<Rightarrow> TemoaModel \<Rightarrow> event list" where
  "solve_events env m =
     [Solve (model_name m),
      Log INFO ''Initial solve time: %.4f'' [Num (real (base_seconds env))]]"

definition record_events :: "'g collaborators \<Rightarrow> TemoaModel \<Rightarrow> event list" where
  "record_events env m =
     [Log DEBUG ''Termination condition: %s'' [Str (condition_name (base_status env))],
      Write_results (model_name m)]"

definition base_solve_events :: "'g collaborators \<Rightarrow> TemoaModel \<Rightarrow> event list" where
  "base_solve_events env m = solve_events env m @ record_events env m"

text \<open>\<^verbatim>\<open>MgaSequencer.start\<close> up to the first test of the loop condition: the error
  raised, with the side effects up to it, or the state in which the loop is entered.
  Reading \<^verbatim>\<open>res.solver\<close> raises on an APPSI result object, after the solve and the log of
  its duration.\<close>

definition start_setup ::
  "'g collaborators \<Rightarrow> MgaSequencer \<Rightarrow> (event list \<times> error) + 'g pipeline" where
  "start_setup env sq =
     (let m0 = build_instance (scenario (config sq));
          ev1 = [Load_data_portal, Build_instance (scenario (config sq)) (silent (config sq))]
      in case opt sq of
           None \<Rightarrow> Inl (ev1, AttributeError ''opt'')
         | Some solver_handle \<Rightarrow>
            (let sq1 = sq\<lparr>solve_count := solve_count sq + 1\<rparr>;
                 ev2 = ev1 @ solve_events env m0
             in case solve_result_kind solver_handle of
                  Appsi_results \<Rightarrow> Inl (ev2, AttributeError ''solver'')
                | Legacy_results \<Rightarrow>
                   (let ev2r = ev2 @ record_events env m0;
                        tot_cost = base_cost env;
                        ev3 = ev2r @ relax_events sq1 m0 tot_cost;
                        m1 = relax_model sq1 m0 tot_cost;
                        vm = get_manager env (mga_axis sq1) m1 (mga_weighting sq1) (con sq1)
                               tot_cost (cost_epsilon sq1);
                        ev4 = ev3 @ [Get_manager (mga_axis sq1) (mga_weighting sq1) tot_cost
                                       (cost_epsilon sq1)]
                    in case options sq1 of
                         None \<Rightarrow> Inl (ev4, AttributeError ''options'')
                       | Some solver_options \<Rightarrow>
                          (let ws = map new_worker [0..<num_workers];
                               ev5 = ev4 @ map Worker_start [0..<num_workers]
                           in case next_instance env vm of
                                None \<Rightarrow> Inl (ev5 @ [Next_instance], StopIteration)
                              | Some (c, vm1) \<Rightarrow>
                                 Inr \<lparr> self = sq1,
                                       model = m1,
                                       vector_manager = vm1,
                                       cur_instance = c,
                                       pc = Loop_test,
                                       work_queue = [],
                                       result_queue = [],
                                       log_closed = False,
                                       work_closed = False,
                                       result_closed = False,
                                       workers = ws,
                                       events = ev5 @ [Next_instance],
                                       clock = base_seconds env \<rparr>))))"

section \<open>The loop and the shutdown, step by step\<close>

text \<open>Each function below is one step of the orchestrator at one program point. A step
  that has to wait (a blocking queue operation, a join) leaves the state as it is: the
  orchestrator stays at that program point until the step can be taken.\<close>

definition loop_test :: "'g collaborators \<Rightarrow> 'g pipeline \<Rightarrow> 'g pipeline" where
  "loop_test env s =
     (if \<not> stop_resolving env (vector_manager s) \<and> \<not> internal_stop (self s) then
        s\<lparr> pc := Put_instance,
           events := events s @ [Log INFO ''Putting an instance in the work queue'' []] \<rparr>
      else s\<lparr> pc := Shutdown_put 0, events := events s @ [Print ''shutting it down''] \<rparr>)"

definition put_instance :: "'g collaborators \<Rightarrow> 'g pipeline \<Rightarrow> 'g pipeline" where
  "put_instance env s =
     (case cur_instance s of
        Waiting \<Rightarrow> s\<lparr> pc := Get_result \<rparr>
      | Instance i \<Rightarrow>
         (case queue_put work_capacity (work_queue s) (Some i) False of
            Put_Full \<Rightarrow>
              s\<lparr> pc := Get_result, events := events s @ [Print ''work queue is full''] \<rparr>
          | Put_waits \<Rightarrow> s
          | Put_ok q \<Rightarrow>
             (case next_instance env (vector_manager s) of
                None \<Rightarrow>
                  s\<lparr> work_queue := q,
                     events := events s @ [Put_work (Some i), Next_instance],
                     pc := Crashed StopIteration \<rparr>
              | Some (c, vm) \<Rightarrow>
                  s\<lparr> work_queue := q,
                     cur_instance := c,
                     vector_manager := vm,
                     events := events s @ [Put_work (Some i), Next_instance],
                     pc := Get_result \<rparr>)))"

text \<open>What the loop does with a result it has read: \<^verbatim>\<open>process_results\<close>,
  \<^verbatim>\<open>process_solve_results\<close> (which writes the capacity tables under the current
  \<^verbatim>\<open>solve_count\<close>), the increment and the test against the iteration limit.\<close>

definition ingest :: "'g collaborators \<Rightarrow> nat \<Rightarrow> 'g pipeline \<Rightarrow> 'g pipeline" where
  "ingest env r s =
     (let n = solve_count (self s) + 1
      in s\<lparr> vector_manager := process_results env r (vector_manager s),
            events := events s @
              [Process_results r, Write_capacity_tables r (solve_count (self s)), Print_count n],
            self := (self s)\<lparr> solve_count := n,
                              internal_stop :=
                                (if n \<ge> iteration_limit (self s) then True
                                 else internal_stop (self s)) \<rparr>,
            pc := Loop_test \<rparr>)"

definition get_result :: "'g collaborators \<Rightarrow> 'g pipeline \<Rightarrow> 'g pipeline" where
  "get_result env s =
     (case queue_get (result_queue s) True of
        Get_waits \<Rightarrow> s
      | Get_Empty \<Rightarrow> s\<lparr> pc := Loop_test \<rparr>
      | Got r q \<Rightarrow> ingest env r (s\<lparr> result_queue := q \<rparr>))"

definition alive_report :: "worker list \<Rightarrow> event list" where
  "alive_report ws = map (\<lambda>w. Print_alive (worker_number w) (is_alive w)) ws"

definition shutdown_put :: "nat \<Rightarrow> 'g pipeline \<Rightarrow> 'g pipeline" where
  "shutdown_put k s =
     (if k < length (workers s) then
        (case queue_put work_capacity (work_queue s) None True of
           Put_ok q \<Rightarrow>
             s\<lparr> work_queue := q, events := events s @ [Put_work None], pc := Shutdown_put (k + 1) \<rparr>
         | Put_Full \<Rightarrow> s
         | Put_waits \<Rightarrow> s)
      else s\<lparr> pc := Join 0, events := events s @ alive_report (workers s) \<rparr>)"

definition join :: "nat \<Rightarrow> 'g pipeline \<Rightarrow> 'g pipeline" where
  "join k s =
     (if k < length (workers s) then
        (if is_alive (workers s ! k) then s
         else s\<lparr> pc := Join (k + 1), events := events s @ [Print ''worker wrapped up...''] \<rparr>)
      else s\<lparr> pc := Close_log, events := events s @ alive_report (workers s) \<rparr>)"

definition orchestrator_step :: "'g collaborators \<Rightarrow> 'g pipeline \<Rightarrow> 'g pipeline" where
  "orchestrator_step env s =
     (case pc s of
        Loop_test \<Rightarrow> loop_test env s
      | Put_instance \<Rightarrow> put_instance env s
      | Get_result \<Rightarrow> get_result env s
      | Shutdown_put k \<Rightarrow> shutdown_put k s
      | Join k \<Rightarrow> join k s
      | Close_log \<Rightarrow>
          s\<lparr> log_closed := True,
             events := events s @ [Close_queue ''log_queue'', Print ''log queue closed''],
             pc := Close_work \<rparr>
      | Close_work \<Rightarrow>
          s\<lparr> work_closed := True,
             events := events s @ [Close_queue ''work_queue'', Print ''work queue joined''],
             pc := Close_result \<rparr>
      | Close_result \<Rightarrow>
          s\<lparr> result_closed := True,
             events := events s @ [Close_queue ''result_queue'', Print ''result queue joined''],
             pc := Finalize \<rparr>
      | Finalize \<Rightarrow> s\<lparr> events := events s @ [Finalize_tracker], pc := Finished \<rparr>
      | Finished \<Rightarrow> s
      | Crashed e \<Rightarrow> s)"

text \<open>Modelled from the spec: the worker process, whose module \<^verbatim>\<open>worker.py\<close> is not
  among the sources. Section 4.1 of the specification: a worker block-receives one item
  from the work channel; on the sentinel it terminates; otherwise it solves the instance
  and sends the result on the result channel (a blocking send). One step of worker \<open>i\<close>:\<close>

definition worker_step :: "nat \<Rightarrow> 'g pipeline \<Rightarrow> 'g pipeline" where
  "worker_step i s =
     (if i < length (workers s) then
        (let w = workers s ! i
         in case wstate w of
              Receiving \<Rightarrow>
                (case queue_get (work_queue s) True of
                   Get_waits \<Rightarrow> s
                 | Get_Empty \<Rightarrow> s
                 | Got x q \<Rightarrow>
                    (case x of
                       None \<Rightarrow>
                         s\<lparr> work_queue := q,
                            workers := (workers s)
                              [i := w\<lparr> wstate := Exited, sentinels := sentinels w + 1 \<rparr>] \<rparr>
                     | Some m \<Rightarrow>
                         s\<lparr> work_queue := q,
                            workers := (workers s)[i := w\<lparr> wstate := Solving m \<rparr>] \<rparr>))
            | Solving m \<Rightarrow> s\<lparr> workers := (workers s)[i := w\<lparr> wstate := Sending m \<rparr>] \<rparr>
            | Sending m \<Rightarrow>
                (case queue_put result_capacity (result_queue s) m True of
                   Put_ok q \<Rightarrow>
                     s\<lparr> result_queue := q,
                        workers := (workers s)[i := w\<lparr> wstate := Receiving \<rparr>] \<rparr>
                 | Put_Full \<Rightarrow> s
                 | Put_waits \<Rightarrow> s)
            | Exited \<Rightarrow> s)
      else s)"

text \<open>A run is the state at loop entry driven by a schedule: who takes the next step
  (the orchestrator, worker \<open>i\<close>), or how many seconds pass.\<close>

datatype actor = Orchestrator | Worker_proc nat | Seconds_pass nat

definition exec :: "'g collaborators \<Rightarrow> actor \<Rightarrow> 'g pipeline \<Rightarrow> 'g pipeline" where
  "exec env a s =
     (case a of
        Orchestrator \<Rightarrow> orchestrator_step env s
      | Worker_proc i \<Rightarrow> worker_step i s
      | Seconds_pass d \<Rightarrow> s\<lparr> clock := clock s + d \<rparr>)"

definition run :: "'g collaborators \<Rightarrow> actor list \<Rightarrow> 'g pipeline \<Rightarrow> 'g pipeline" where
  "run env sched s = fold (exec env) sched s"

section \<open>Concrete inputs\<close>

text \<open>A configuration with one database for input and output, the solver \<^verbatim>\<open>cbc\<close> and
  an empty \<^verbatim>\<open>mga_inputs\<close> dictionary, so that every default applies.\<close>

definition example_config :: TemoaConfig where
  "example_config =
     \<lparr> input_database = ''temoa.sqlite'',
       output_database = ''temoa.sqlite'',
       source_trace = True,
       save_lp_file = False,
       save_duals = False,
       save_excel = False,
       solver_name = ''cbc'',
       mga_inputs = \<lparr> key_axis = None, key_weighting = None, key_iteration_limit = None,
                      key_time_limit_hrs = None, key_cost_epsilon = None \<rparr>,
       scenario = ''mga'',
       silent = True \<rparr>"

definition with_limit :: "int \<Rightarrow> TemoaConfig \<Rightarrow> TemoaConfig" where
  "with_limit L c = c\<lparr> mga_inputs := (mga_inputs c)\<lparr> key_iteration_limit := Some L \<rparr> \<rparr>"

text \<open>Collaborators: the base solve is optimal with objective value 1000 and takes two
  seconds; the vector manager's state is the number of candidates pulled so far; the
  generator yields the instances 0, 1, 2, ... and never the wait marker; the stop
  predicate is always false.\<close>

definition example_env :: "nat collaborators" where
  "example_env =
     \<lparr> base_status = optimal,
       base_cost = 1000,
       base_seconds = 2,
       get_manager = (\<lambda>ax m wt db c eps. 0),
       next_instance = (\<lambda>g. Some (Instance g, Suc g)),
       stop_resolving = (\<lambda>g. False),
       process_results = (\<lambda>r g. g) \<rparr>"

text \<open>The same, but the second pull of the generator yields the wait marker (and the
  pulls after it would yield instances again).\<close>

definition waiting_env :: "nat collaborators" where
  "waiting_env =
     example_env\<lparr> next_instance :=
       (\<lambda>g. Some (if g = 1 then Waiting else Instance g, Suc g)) \<rparr>"

text \<open>The same as \<open>example_env\<close>, but the stop predicate holds from the start.\<close>

definition stopped_env :: "nat collaborators" where
  "stopped_env = example_env\<lparr> stop_resolving := (\<lambda>g. True) \<rparr>"

text \<open>One round of the loop in which worker \<open>i\<close> solves the instance submitted: the
  orchestrator tests and submits, the worker receives, solves and sends, the orchestrator
  reads the result.\<close>

definition round_with :: "nat \<Rightarrow> actor list" where
  "round_with i =
     [Orchestrator, Orchestrator, Worker_proc i, Worker_proc i, Worker_proc i, Orchestrator]"

text \<open>A schedule of the whole shutdown for six workers, from the loop test that leaves
  the loop: five sentinels fill the work queue, worker 0 takes one, the sixth is put,
  the other workers take theirs, then the joins, the three closes and the finalisation.\<close>

definition shutdown_schedule :: "actor list" where
  "shutdown_schedule =
     replicate 6 Orchestrator @ [Worker_proc 0] @ replicate 2 Orchestrator
     @ map Worker_proc [1..<6] @ replicate 11 Orchestrator"

section \<open>Observations on a run\<close>

text \<open>The object the constructor returns for a configuration it accepts, and the state
  in which \<^verbatim>\<open>start\<close> enters its loop for inputs with which it gets there (used at
  concrete inputs only).\<close>

definition constructed :: "TemoaConfig \<Rightarrow> MgaSequencer" where
  "constructed c = projr (snd (init c))"

definition loop_entry :: "'g collaborators \<Rightarrow> TemoaConfig \<Rightarrow> 'g pipeline" where
  "loop_entry env c = projr (start_setup env (constructed c))"

text \<open>The side effects of the sequential half of \<^verbatim>\<open>start\<close>, whether it failed or not.\<close>

definition setup_events :: "(event list \<times> error) + 'g pipeline \<Rightarrow> event list" where
  "setup_events r = (case r of Inl (evs, e) \<Rightarrow> evs | Inr s \<Rightarrow> events s)"

text \<open>The iterations recorded by \<^verbatim>\<open>process_solve_results\<close>: the result and the
  iteration number under which its capacity tables were written, in order.\<close>

fun recorded :: "event list \<Rightarrow> (nat \<times> int) list" where
  "recorded [] = []"
| "recorded (Write_capacity_tables r k # es) = (r, k) # recorded es"
| "recorded (e # es) = recorded es"

fun is_transform :: "event \<Rightarrow> bool" where
  "is_transform (Add_cost_cap e b) = True"
| "is_transform Del_TotalCost = True"
| "is_transform e = False"

fun is_worker_start :: "event \<Rightarrow> bool" where
  "is_worker_start (Worker_start i) = True"
| "is_worker_start e = False"

text \<open>The invariant that relates the iteration counter, the iterations recorded and the
  iteration-limit flag in a run with limit \<open>L\<close>: the counter is one (the base solve)
  plus the number of iterations recorded; the recorded iterations are numbered from one;
  while the flag is unset, nothing is recorded yet or the counter is below the limit;
  once it is set, \<open>max 1 (L - 1)\<close> iterations are recorded and the orchestrator is
  outside the loop body.\<close>

definition count_inv :: "int \<Rightarrow> 'g pipeline \<Rightarrow> bool" where
  "count_inv L s =
     (let n = int (length (recorded (events s)))
      in solve_count (self s) = 1 + n
         \<and> iteration_limit (self s) = L
         \<and> map snd (recorded (events s)) = map int [1..<Suc (length (recorded (events s)))]
         \<and> (if internal_stop (self s)
            then n = max 1 (L - 1) \<and> pc s \<noteq> Put_instance \<and> pc s \<noteq> Get_result
            else n = 0 \<or> n + 1 < L))"

text \<open>The candidates submitted to the work queue, in order, and the number of times
  the instance generator was pulled.\<close>

fun submitted :: "event list \<Rightarrow> nat list" where
  "submitted [] = []"
| "submitted (Put_work (Some i) # es) = i # submitted es"
| "submitted (e # es) = submitted es"

definition pulls :: "event list \<Rightarrow> nat" where
  "pulls es = count_list es Next_instance"

text \<open>A state inside the loop in which the current candidate is the wait marker and no
  work is under way: both queues are empty and every worker waits for work.\<close>

definition starved :: "'g pipeline \<Rightarrow> bool" where
  "starved s \<longleftrightarrow>
     cur_instance s = Waiting \<and> work_queue s = [] \<and> result_queue s = []
     \<and> list_all (\<lambda>w. wstate w = Receiving) (workers s)
     \<and> (pc s = Loop_test \<or> pc s = Put_instance \<or> pc s = Get_result)"

text \<open>The steps of a schedule in which only time passes.\<close>

fun passes_time :: "actor \<Rightarrow> bool" where
  "passes_time (Seconds_pass d) = True"
| "passes_time a = False"


section \<open>Properties of the constructor\<close>

lemma init_accepts:
  "input_database c = output_database c \<Longrightarrow>
   \<exists>sq. init c = (init_events c, Inr sq) \<and> opt sq = fst (init_solver (solver_name c))
      \<and> options sq = snd (snd (init_solver (solver_name c)))
      \<and> config sq = init_config c
      \<and> solve_count sq = 0 \<and> \<not> internal_stop sq
      \<and> iteration_limit sq = dict_get (key_iteration_limit (mga_inputs c)) 20
      \<and> time_limit_hrs sq = dict_get (key_time_limit_hrs (mga_inputs c)) 12
      \<and> cost_epsilon sq = dict_get (key_cost_epsilon (mga_inputs c)) (5 / 100)"
  by (simp add: init_def split: prod.splits)

text \<open>
  Claim C8. When the input database and the output database of the configuration differ,
  the constructor raises \<^verbatim>\<open>NotImplementedError\<close> and has done nothing before: the list
  of its side effects is empty (no connection opened, no writer created, no prior-run
  records cleared, nothing logged) and no sequencer object results.
\<close>

theorem init_rejects_mismatched_databases:
  assumes "input_database c \<noteq> output_database c"
  shows "init c =
    ([], Inl (NotImplementedError ''MGA assumes input and output databases are same''))"
  using assms by (simp add: init_def)

theorem init_rejects_mismatched_databases_witness:
  "input_database (example_config\<lparr>output_database := ''other.sqlite''\<rparr>)
     \<noteq> output_database (example_config\<lparr>output_database := ''other.sqlite''\<rparr>)
   \<and> fst (init (example_config\<lparr>output_database := ''other.sqlite''\<rparr>)) = []
   \<and> snd (init (example_config\<lparr>output_database := ''other.sqlite''\<rparr>)) =
       Inl (NotImplementedError ''MGA assumes input and output databases are same'')"
proof -
  have h: "input_database (example_config\<lparr>output_database := ''other.sqlite''\<rparr>)
     \<noteq> output_database (example_config\<lparr>output_database := ''other.sqlite''\<rparr>)"
    by (simp add: example_config_def)
  show ?thesis
    using h init_rejects_mismatched_databases [OF h] by simp
qed

lemma scenario_init_config [simp]: "scenario (init_config c) = scenario c"
  by (simp add: init_config_def Let_def)

lemma silent_init_config [simp]: "silent (init_config c) = silent c"
  by (simp add: init_config_def Let_def)

text \<open>
  Claim C10, as amended. For every accepted configuration whose solver name is neither
  \<^verbatim>\<open>gurobi\<close> nor \<^verbatim>\<open>cbc\<close>, the constructor leaves \<^verbatim>\<open>options\<close> unassigned, and
  \<^verbatim>\<open>start\<close> fails with an attribute error before any worker is started, but not where
  the worker keyword arguments are built. With \<^verbatim>\<open>appsi_highs\<close> the handle is the APPSI
  HiGHS object: \<^verbatim>\<open>start\<close> loads the data, builds the instance, runs the base solve and
  logs its duration, and then fails reading \<^verbatim>\<open>res.solver\<close>. With a name outside the three
  recognised ones, \<^verbatim>\<open>opt\<close> is unassigned as well and \<^verbatim>\<open>start\<close> fails on \<^verbatim>\<open>opt\<close> at the
  base solve, after loading the data and building the instance only.
\<close>

theorem start_fails_without_options:
  assumes "input_database c = output_database c"
    and "solver_name c \<noteq> ''gurobi''" and "solver_name c \<noteq> ''cbc''"
  shows "\<exists>sq. init c = (init_events c, Inr sq) \<and> options sq = None
     \<and> (\<forall>i. Worker_start i \<notin> set (setup_events (start_setup env sq)))
     \<and> (\<forall>evs. start_setup env sq \<noteq> Inl (evs, AttributeError ''options''))
     \<and> (if solver_name c = ''appsi_highs'' then
           opt sq = Some Highs \<and>
           start_setup env sq =
             Inl ([Load_data_portal, Build_instance (scenario c) (silent c), Solve (scenario c),
                   Log INFO ''Initial solve time: %.4f'' [Num (real (base_seconds env))]],
                  AttributeError ''solver'')
         else opt sq = None \<and>
           start_setup env sq =
             Inl ([Load_data_portal, Build_instance (scenario c) (silent c)],
                  AttributeError ''opt''))"
proof -
  from init_accepts [OF assms(1)] obtain sq where
    sq: "init c = (init_events c, Inr sq)" "opt sq = fst (init_solver (solver_name c))"
      "options sq = snd (snd (init_solver (solver_name c)))" "config sq = init_config c"
    by blast
  have o: "options sq = None"
    using assms(2,3) sq(3) by (simp add: init_solver_def)
  show ?thesis
  proof (cases "solver_name c = ''appsi_highs''")
    case True
    then have h: "opt sq = Some Highs" using sq(2) by (simp add: init_solver_def)
    have "start_setup env sq =
             Inl ([Load_data_portal, Build_instance (scenario c) (silent c), Solve (scenario c),
                   Log INFO ''Initial solve time: %.4f'' [Num (real (base_seconds env))]],
                  AttributeError ''solver'')"
      using h sq(4)
      by (simp add: start_setup_def Let_def solve_events_def build_instance_def)
    then show ?thesis using sq(1) o h True by (auto simp: setup_events_def)
  next
    case False
    then have h: "opt sq = None" using sq(2) assms(2,3) by (simp add: init_solver_def)
    have "start_setup env sq =
             Inl ([Load_data_portal, Build_instance (scenario c) (silent c)],
                  AttributeError ''opt'')"
      using h sq(4) by (simp add: start_setup_def Let_def)
    then show ?thesis using sq(1) o h False by (auto simp: setup_events_def)
  qed
qed

theorem start_fails_without_options_witness:
  "input_database (example_config\<lparr>solver_name := ''appsi_highs''\<rparr>) =
     output_database (example_config\<lparr>solver_name := ''appsi_highs''\<rparr>)
   \<and> solver_name (example_config\<lparr>solver_name := ''appsi_highs''\<rparr>) \<noteq> ''gurobi''
   \<and> solver_name (example_config\<lparr>solver_name := ''appsi_highs''\<rparr>) \<noteq> ''cbc''
   \<and> (\<exists>sq. snd (init (example_config\<lparr>solver_name := ''appsi_highs''\<rparr>)) = Inr sq
         \<and> options sq = None \<and> opt sq = Some Highs
         \<and> start_setup example_env sq =
             Inl ([Load_data_portal, Build_instance ''mga'' True, Solve ''mga'',
                   Log INFO ''Initial solve time: %.4f'' [Num 2]], AttributeError ''solver''))"
proof -
  let ?c = "example_config\<lparr>solver_name := ''appsi_highs''\<rparr>"
  have h1: "input_database ?c = output_database ?c" by (simp add: example_config_def)
  have h2: "solver_name ?c \<noteq> ''gurobi''" by simp
  have h3: "solver_name ?c \<noteq> ''cbc''" by simp
  have h4: "scenario ?c = ''mga''" "silent ?c" by (simp_all add: example_config_def)
  have h5: "real (base_seconds example_env) = 2" by (simp add: example_env_def)
  show ?thesis
    using h1 h2 h3 h4 h5 start_fails_without_options [OF h1 h2 h3, of example_env]
    by auto
qed

text \<open>
  Claim C10 as stated fails for \<^verbatim>\<open>appsi_highs\<close>: \<^verbatim>\<open>options\<close> is unassigned, but \<^verbatim>\<open>start\<close>
  does not get as far as the worker keyword arguments. It fails right after the base solve,
  reading \<^verbatim>\<open>res.solver\<close> on the result of the APPSI HiGHS object, and so never with an
  attribute error on \<^verbatim>\<open>options\<close>.
\<close>

theorem appsi_highs_fails_before_worker_arguments:
  "\<exists>sq. snd (init (example_config\<lparr>solver_name := ''appsi_highs''\<rparr>)) = Inr sq
     \<and> options sq = None \<and> opt sq = Some Highs
     \<and> start_setup example_env sq =
         Inl ([Load_data_portal, Build_instance ''mga'' True, Solve ''mga'',
               Log INFO ''Initial solve time: %.4f'' [Num 2]], AttributeError ''solver'')
     \<and> (\<forall>evs. start_setup example_env sq \<noteq> Inl (evs, AttributeError ''options''))"
  by (simp add: init_def init_solver_def example_config_def start_setup_def Let_def
      init_config_def solve_events_def build_instance_def example_env_def)

section \<open>Properties of the sequential half of start\<close>

lemma start_setup_Inr:
  assumes "start_setup env sq = Inr s"
  shows "opt sq \<noteq> None" and "options sq \<noteq> None"
    and "self s = sq\<lparr>solve_count := solve_count sq + 1\<rparr>"
    and "model s = relax_model sq (build_instance (scenario (config sq))) (base_cost env)"
    and "pc s = Loop_test" and "work_queue s = []" and "result_queue s = []"
    and "workers s = map new_worker [0..<num_workers]"
    and "\<not> log_closed s" and "\<not> work_closed s" and "\<not> result_closed s"
    and "clock s = base_seconds env"
    and "events s =
      [Load_data_portal, Build_instance (scenario (config sq)) (silent (config sq))]
      @ base_solve_events env (build_instance (scenario (config sq)))
      @ relax_events sq (build_instance (scenario (config sq))) (base_cost env)
      @ [Get_manager (mga_axis sq) (mga_weighting sq) (base_cost env) (cost_epsilon sq)]
      @ map Worker_start [0..<num_workers] @ [Next_instance]"
  using assms
  by (auto simp: start_setup_def Let_def relax_model_def relax_events_def base_solve_events_def
      split: option.splits prod.splits results_kind.splits)







lemma init_example: "init example_config = (init_events example_config, Inr (constructed example_config))"
  by (simp add: constructed_def init_def example_config_def split: prod.splits)

lemma loop_entry_example:
  "start_setup example_env (constructed example_config) = Inr (loop_entry example_env example_config)"
  by (simp add: loop_entry_def constructed_def init_def example_config_def init_solver_def
     start_setup_def example_env_def Let_def)

lemma scenario_example: "scenario (config (constructed example_config)) = ''mga''"
  by (simp add: constructed_def init_def example_config_def init_solver_def)



section \<open>Properties of runs\<close>

lemmas step_defs = loop_test_def put_instance_def get_result_def ingest_def shutdown_put_def
  join_def queue_put_def queue_get_def

lemma run_Nil [simp]: "run env [] s = s"
  by (simp add: run_def)

lemma run_Cons [simp]: "run env (a # sched) s = run env sched (exec env a s)"
  by (simp add: run_def)

lemma run_append: "run env (xs @ ys) s = run env ys (run env xs s)"
  by (simp add: run_def)

lemma run_invariant:
  assumes "P s" and "\<And>a t. P t \<Longrightarrow> P (exec env a t)"
  shows "P (run env sched s)"
  using assms(1)
proof (induction sched arbitrary: s)
  case Nil
  then show ?case by simp
next
  case (Cons a sched)
  then show ?case using assms(2) by simp
qed

lemma worker_step_frame:
  "self (worker_step i s) = self s" "model (worker_step i s) = model s"
  "vector_manager (worker_step i s) = vector_manager s"
  "cur_instance (worker_step i s) = cur_instance s" "pc (worker_step i s) = pc s"
  "events (worker_step i s) = events s" "clock (worker_step i s) = clock s"
  "log_closed (worker_step i s) = log_closed s" "work_closed (worker_step i s) = work_closed s"
  "result_closed (worker_step i s) = result_closed s"
  "length (workers (worker_step i s)) = length (workers s)"
  by (simp_all add: worker_step_def Let_def queue_get_def queue_put_def
      split: wstate.splits list.splits option.splits)

lemma orchestrator_step_frame:
  "model (orchestrator_step env s) = model s"
  "workers (orchestrator_step env s) = workers s"
  "clock (orchestrator_step env s) = clock s"
  by (simp_all add: orchestrator_step_def step_defs Let_def
      split: pc.splits candidate.splits list.splits option.splits prod.splits)

lemma transform_alive_report [simp]: "filter is_transform (alive_report ws) = []"
  by (induction ws) (simp_all add: alive_report_def)

lemma worker_start_alive_report [simp]: "filter is_worker_start (alive_report ws) = []"
  by (induction ws) (simp_all add: alive_report_def)

lemma orchestrator_step_events:
  "\<exists>more. events (orchestrator_step env s) = events s @ more \<and> filter is_transform more = []
     \<and> filter is_worker_start more = []"
  by (simp add: orchestrator_step_def step_defs Let_def
      split: pc.splits candidate.splits list.splits option.splits prod.splits)

lemma exec_model: "model (exec env a s) = model s"
  by (cases a) (simp_all add: exec_def worker_step_frame orchestrator_step_frame)

lemma exec_events:
  "\<exists>more. events (exec env a s) = events s @ more \<and> filter is_transform more = []
     \<and> filter is_worker_start more = []"
  by (cases a) (simp_all add: exec_def worker_step_frame orchestrator_step_events)

lemma run_model: "model (run env sched s) = model s"
  by (rule run_invariant [where P = "\<lambda>t. model t = model s"]) (simp_all add: exec_model)

lemma run_events:
  fixes s :: "'g pipeline"
  shows "\<exists>more. events (run env sched s) = events s @ more \<and> filter is_transform more = []
     \<and> filter is_worker_start more = []"
proof (rule run_invariant
    [where P = "\<lambda>t. \<exists>more. events t = events s @ more \<and> filter is_transform more = []
     \<and> filter is_worker_start more = []"])
  show "\<exists>more. events s = events s @ more \<and> filter is_transform more = []
     \<and> filter is_worker_start more = []" by simp
next
  fix a and t :: "'g pipeline"
  assume "\<exists>more. events t = events s @ more \<and> filter is_transform more = []
     \<and> filter is_worker_start more = []"
  then obtain m1 where m1: "events t = events s @ m1" "filter is_transform m1 = []"
    "filter is_worker_start m1 = []" by blast
  obtain m2 where m2: "events (exec env a t) = events t @ m2" "filter is_transform m2 = []"
    "filter is_worker_start m2 = []"
    using exec_events by blast
  have "events (exec env a t) = events s @ (m1 @ m2)" "filter is_transform (m1 @ m2) = []"
    "filter is_worker_start (m1 @ m2) = []"
    using m1 m2 by simp_all
  then show "\<exists>more. events (exec env a t) = events s @ more \<and> filter is_transform more = []
     \<and> filter is_worker_start more = []"
    by blast
qed

text \<open>
  Claim C5. In every state of a run that has entered the loop, the working model is the
  base model with the constraint \<^verbatim>\<open>cost_cap\<close>, bounding the total-cost expression by
  \<open>(1 + \<epsilon>) \<sqdot> C\<close> for the objective value \<open>C\<close> of the base solve, and without the
  objective \<^verbatim>\<open>TotalCost\<close>. The two transforming side effects (adding the constraint,
  deleting the objective) occur exactly once in the whole trace, one after the other, and
  every worker start comes after them; no later step of the orchestrator or of a worker
  touches the model. Floating-point products are read as real products.
\<close>

theorem cost_cap_added_once_before_workers:
  assumes "start_setup env sq = Inr s0"
  shows "model (run env sched s0) =
      \<lparr> model_name = scenario (config sq), TotalCost = False,
        cost_cap = Some (TotalCost_rule (scenario (config sq)),
                         (1 + cost_epsilon sq) * base_cost env) \<rparr>
    \<and> filter is_transform (events (run env sched s0)) =
        [Add_cost_cap (TotalCost_rule (scenario (config sq)))
           ((1 + cost_epsilon sq) * base_cost env),
         Del_TotalCost]
    \<and> (\<exists>pre post. events (run env sched s0) =
          pre @ [Add_cost_cap (TotalCost_rule (scenario (config sq)))
                   ((1 + cost_epsilon sq) * base_cost env),
                 Del_TotalCost] @ post
          \<and> filter is_worker_start pre = []
          \<and> filter is_worker_start post = map Worker_start [0..<num_workers])"
proof -
  let ?nm = "scenario (config sq)"
  let ?b = "(1 + cost_epsilon sq) * base_cost env"
  let ?pre = "[Load_data_portal, Build_instance ?nm (silent (config sq)),
      Solve ?nm,
      Log INFO ''Initial solve time: %.4f'' [Num (real (base_seconds env))],
      Log DEBUG ''Termination condition: %s'' [Str (condition_name (base_status env))],
      Write_results ?nm,
      Log INFO ''Completed initial solve with total cost:  %0.2f'' [Num (base_cost env)],
      Log INFO ''Relaxing cost by fraction:  %0.3f'' [Num (cost_epsilon sq)]]"
  let ?mid = "[Add_cost_cap (TotalCost_rule ?nm) ?b, Del_TotalCost]"
  let ?post0 = "[Get_manager (mga_axis sq) (mga_weighting sq) (base_cost env) (cost_epsilon sq)]
      @ map Worker_start [0..<num_workers] @ [Next_instance]"
  have ev0: "events s0 = ?pre @ ?mid @ ?post0"
    using start_setup_Inr(13) [OF assms]
    by (simp add: base_solve_events_def solve_events_def record_events_def relax_events_def build_instance_def)
  have m0: "model s0 = \<lparr> model_name = ?nm, TotalCost = False,
        cost_cap = Some (TotalCost_rule ?nm, ?b) \<rparr>"
    using start_setup_Inr(4) [OF assms] by (simp add: relax_model_def build_instance_def)
  obtain more where more: "events (run env sched s0) = events s0 @ more"
      "filter is_transform more = []" and tw: "filter is_worker_start more = []"
    using run_events by blast
  have ws: "filter is_worker_start (map Worker_start xs) = map Worker_start xs" for xs
    by (induction xs) simp_all
  have 1: "filter is_transform (events (run env sched s0)) = ?mid"
    using more ev0 by (simp add: filter_empty_conv)
  have 2: "events (run env sched s0) = ?pre @ ?mid @ (?post0 @ more)"
    using more ev0 by simp
  have 3: "filter is_worker_start ?pre = []" by simp
  have 4: "filter is_worker_start (?post0 @ more) = map Worker_start [0..<num_workers]"
    using tw ws by simp
  have 5: "model (run env sched s0) = \<lparr> model_name = ?nm, TotalCost = False,
        cost_cap = Some (TotalCost_rule ?nm, ?b) \<rparr>"
    using run_model [of env sched s0] m0 by simp
  show ?thesis
    apply (intro conjI)
      apply (rule 5)
     apply (rule 1)
    apply (rule exI [of _ ?pre])
    apply (rule exI [of _ "?post0 @ more"])
    apply (intro conjI)
      apply (rule 2)
     apply (rule 3)
    apply (rule 4)
    done
qed

lemma epsilon_example: "cost_epsilon (constructed example_config) = 5 / 100"
  by (simp add: constructed_def init_def example_config_def init_solver_def dict_get_def)

theorem cost_cap_added_once_before_workers_witness:
  "start_setup example_env (constructed example_config) =
     Inr (loop_entry example_env example_config)
   \<and> cost_cap (model (run example_env (round_with 0 @ round_with 1)
        (loop_entry example_env example_config))) = Some (TotalCost_rule ''mga'', 1050)
   \<and> \<not> TotalCost (model (run example_env (round_with 0 @ round_with 1)
        (loop_entry example_env example_config)))
   \<and> filter is_transform (events (run example_env (round_with 0 @ round_with 1)
        (loop_entry example_env example_config))) =
        [Add_cost_cap (TotalCost_rule ''mga'') 1050, Del_TotalCost]"
proof -
  have b: "base_cost example_env = 1000" by (simp add: example_env_def)
  show ?thesis
    using cost_cap_added_once_before_workers
      [OF loop_entry_example, of "round_with 0 @ round_with 1"]
      loop_entry_example
    by (simp add: epsilon_example scenario_example b)
qed

subsection \<open>Counting iterations\<close>

lemma recorded_append: "recorded (xs @ ys) = recorded xs @ recorded ys"
  by (induction xs rule: recorded.induct) simp_all

lemma recorded_alive_report [simp]: "recorded (alive_report ws) = []"
  by (induction ws) (simp_all add: alive_report_def)

lemma count_inv_loop_test: "count_inv L s \<Longrightarrow> count_inv L (loop_test env s)"
  by (auto simp: count_inv_def loop_test_def Let_def recorded_append)

lemma count_inv_put_instance:
  "count_inv L s \<Longrightarrow> pc s = Put_instance \<Longrightarrow> count_inv L (put_instance env s)"
  by (auto simp: count_inv_def put_instance_def queue_put_def Let_def recorded_append
      split: candidate.splits option.splits prod.splits)

lemma count_inv_get_result:
  "count_inv L s \<Longrightarrow> pc s = Get_result \<Longrightarrow> count_inv L (get_result env s)"
  by (auto simp: count_inv_def get_result_def ingest_def queue_get_def Let_def recorded_append
      split: list.splits if_splits)

lemma count_inv_shutdown_put:
  "count_inv L s \<Longrightarrow> pc s = Shutdown_put k \<Longrightarrow> count_inv L (shutdown_put k s)"
  by (auto simp: count_inv_def shutdown_put_def queue_put_def Let_def recorded_append)

lemma count_inv_join:
  "count_inv L s \<Longrightarrow> pc s = Join k \<Longrightarrow> count_inv L (join k s)"
  by (auto simp: count_inv_def join_def Let_def recorded_append)

lemma count_inv_orchestrator_step:
  "count_inv L s \<Longrightarrow> count_inv L (orchestrator_step env s)"
proof (cases "pc s")
  case Loop_test
  then show "count_inv L s \<Longrightarrow> ?thesis"
    by (simp add: orchestrator_step_def count_inv_loop_test)
next
  case Put_instance
  then show "count_inv L s \<Longrightarrow> ?thesis"
    by (simp add: orchestrator_step_def count_inv_put_instance)
next
  case Get_result
  then show "count_inv L s \<Longrightarrow> ?thesis"
    by (simp add: orchestrator_step_def count_inv_get_result)
next
  case (Shutdown_put k)
  then show "count_inv L s \<Longrightarrow> ?thesis"
    by (simp add: orchestrator_step_def count_inv_shutdown_put)
next
  case (Join k)
  then show "count_inv L s \<Longrightarrow> ?thesis"
    by (simp add: orchestrator_step_def count_inv_join)
qed (auto simp: orchestrator_step_def count_inv_def Let_def recorded_append)

lemma count_inv_frame:
  "self t = self s \<Longrightarrow> events t = events s \<Longrightarrow> pc t = pc s \<Longrightarrow>
   count_inv L t = count_inv L s"
  unfolding count_inv_def by simp

lemma count_inv_exec: "count_inv L s \<Longrightarrow> count_inv L (exec env a s)"
proof (cases a)
  case Orchestrator
  then show "count_inv L s \<Longrightarrow> ?thesis"
    by (simp add: exec_def count_inv_orchestrator_step)
next
  case (Worker_proc i)
  then show "count_inv L s \<Longrightarrow> ?thesis"
    by (simp add: exec_def count_inv_frame [of "worker_step i s" s] worker_step_frame)
next
  case (Seconds_pass d)
  then show "count_inv L s \<Longrightarrow> ?thesis"
    by (simp add: exec_def count_inv_frame [of "s\<lparr>clock := clock s + d\<rparr>" s])
qed

lemma recorded_map_Worker_start: "recorded (map Worker_start xs) = []"
  by (induction xs) simp_all

lemma count_inv_start:
  assumes "init c = (evs, Inr sq)" and "start_setup env sq = Inr s0"
  shows "count_inv (dict_get (key_iteration_limit (mga_inputs c)) 20) s0"
proof -
  have sq: "solve_count sq = 0" "\<not> internal_stop sq"
      "iteration_limit sq = dict_get (key_iteration_limit (mga_inputs c)) 20"
    using assms(1) by (auto simp: init_def split: if_splits prod.splits)
  have r: "recorded (events s0) = []"
    using start_setup_Inr(13) [OF assms(2)]
    by (simp add: recorded_append base_solve_events_def solve_events_def record_events_def relax_events_def
        recorded_map_Worker_start)
  show ?thesis
    using sq r start_setup_Inr(3,5) [OF assms(2)] by (simp add: count_inv_def)
qed

text \<open>
  Claim C2, as amended. In every state of a run, the iteration counter is one (the base
  solve) plus the number of iterations recorded, the recorded iterations are numbered
  1, 2, ..., and for the configured limit \<open>L\<close> (default 20) at most \<open>max 1 (L - 1)\<close>
  iterations are recorded; once the iteration-limit flag is set, exactly that many are.
  The base solve counts towards the limit.
\<close>

theorem iteration_limit_counts_base_solve:
  assumes "init c = (evs, Inr sq)" and "start_setup env sq = Inr s0"
  shows "solve_count (self (run env sched s0)) =
           1 + int (length (recorded (events (run env sched s0))))
    \<and> map snd (recorded (events (run env sched s0))) =
        map int [1..<Suc (length (recorded (events (run env sched s0))))]
    \<and> int (length (recorded (events (run env sched s0))))
        \<le> max 1 (dict_get (key_iteration_limit (mga_inputs c)) 20 - 1)
    \<and> (internal_stop (self (run env sched s0)) \<longrightarrow>
         int (length (recorded (events (run env sched s0)))) =
           max 1 (dict_get (key_iteration_limit (mga_inputs c)) 20 - 1))"
proof -
  let ?L = "dict_get (key_iteration_limit (mga_inputs c)) 20"
  have "count_inv ?L (run env sched s0)"
    by (rule run_invariant [where P = "count_inv ?L"])
      (simp_all add: count_inv_start [OF assms] count_inv_exec)
  then show ?thesis
    by (auto simp: count_inv_def Let_def split: if_splits)
qed

lemma constructed_limit:
  "init (with_limit L example_config) =
     (init_events (with_limit L example_config), Inr (constructed (with_limit L example_config)))"
  by (simp add: constructed_def init_def example_config_def with_limit_def split: prod.splits)

lemma loop_entry_limit:
  "start_setup example_env (constructed (with_limit L example_config)) =
     Inr (loop_entry example_env (with_limit L example_config))"
  by (simp add: loop_entry_def constructed_def init_def example_config_def init_solver_def
     start_setup_def example_env_def Let_def with_limit_def)


theorem iteration_limit_counts_base_solve_witness:
  "init (with_limit 3 example_config) =
     (init_events (with_limit 3 example_config), Inr (constructed (with_limit 3 example_config)))
   \<and> start_setup example_env (constructed (with_limit 3 example_config)) =
       Inr (loop_entry example_env (with_limit 3 example_config))
   \<and> internal_stop (self (run example_env (round_with 0 @ round_with 1)
         (loop_entry example_env (with_limit 3 example_config))))
   \<and> int (length (recorded (events (run example_env (round_with 0 @ round_with 1)
         (loop_entry example_env (with_limit 3 example_config)))))) = 2"
proof -
  have stop: "internal_stop (self (run example_env (round_with 0 @ round_with 1)
         (loop_entry example_env (with_limit 3 example_config))))"
    by (simp add: loop_entry_def constructed_def init_def example_config_def init_solver_def
        start_setup_def example_env_def Let_def with_limit_def round_with_def exec_def
        orchestrator_step_def worker_step_def step_defs num_workers_def new_worker_def
        work_capacity_def result_capacity_def dict_get_def upt_rec)
  have L: "dict_get (key_iteration_limit (mga_inputs (with_limit 3 example_config))) 20 = 3"
    by (simp add: with_limit_def dict_get_def)
  show ?thesis
    using iteration_limit_counts_base_solve
      [OF constructed_limit [of 3] loop_entry_limit [of 3],
        where sched = "round_with 0 @ round_with 1"]
      constructed_limit [of 3] loop_entry_limit [of 3] stop
    by (simp add: L)
qed

text \<open>
  Claim C2 as stated fails at its own scenario: with iteration limit 3 and a stop
  predicate that is always false, the flag is set after two recorded iterations
  (numbered 1 and 2), and the next loop test leaves the loop.
\<close>

theorem limit_three_records_two_iterations:
  "stop_resolving example_env = (\<lambda>g. False)
   \<and> iteration_limit (self (loop_entry example_env (with_limit 3 example_config))) = 3
   \<and> recorded (events (run example_env (round_with 0 @ round_with 1 @ [Orchestrator])
        (loop_entry example_env (with_limit 3 example_config)))) = [(0, 1), (1, 2)]
   \<and> internal_stop (self (run example_env (round_with 0 @ round_with 1 @ [Orchestrator])
        (loop_entry example_env (with_limit 3 example_config))))
   \<and> pc (run example_env (round_with 0 @ round_with 1 @ [Orchestrator])
        (loop_entry example_env (with_limit 3 example_config))) = Shutdown_put 0"
  by (simp add: loop_entry_def constructed_def init_def example_config_def init_solver_def
      start_setup_def example_env_def Let_def with_limit_def round_with_def exec_def
      orchestrator_step_def worker_step_def step_defs num_workers_def new_worker_def
      work_capacity_def result_capacity_def dict_get_def upt_rec base_solve_events_def solve_events_def record_events_def
      relax_events_def)

subsection \<open>Reading the result queue\<close>

lemma get_result_waits:
  "pc s = Get_result \<Longrightarrow> result_queue s = [] \<Longrightarrow> orchestrator_step env s = s"
  by (simp add: orchestrator_step_def get_result_def queue_get_def)

lemma replicate_waits:
  "pc s = Get_result \<Longrightarrow> result_queue s = [] \<Longrightarrow> run env (replicate n Orchestrator) s = s"
  by (induction n) (simp_all add: exec_def get_result_waits)

text \<open>
  Claim C1. The read of the result queue in the loop is \<^verbatim>\<open>result_queue.get()\<close>, a
  blocking read. In the first round of a run, after the first candidate has been submitted
  and before any worker has delivered a result, the result queue is empty and the
  orchestrator is at the read: however many steps it is given, it stays there, in the same
  state. It does not go on to the next round without a result.
\<close>

theorem result_read_blocks_on_empty_queue:
  "pc (run example_env [Orchestrator, Orchestrator] (loop_entry example_env example_config))
     = Get_result
   \<and> submitted (events (run example_env [Orchestrator, Orchestrator]
        (loop_entry example_env example_config))) = [0]
   \<and> result_queue (run example_env [Orchestrator, Orchestrator]
        (loop_entry example_env example_config)) = []
   \<and> (\<forall>n. run example_env (replicate n Orchestrator)
          (run example_env [Orchestrator, Orchestrator] (loop_entry example_env example_config))
        = run example_env [Orchestrator, Orchestrator] (loop_entry example_env example_config))"
proof -
  let ?s = "run example_env [Orchestrator, Orchestrator] (loop_entry example_env example_config)"
  have 1: "pc ?s = Get_result" and 2: "result_queue ?s = []"
    and 3: "submitted (events ?s) = [0]"
    by (simp_all add: loop_entry_def constructed_def init_def example_config_def init_solver_def
        start_setup_def example_env_def Let_def exec_def
        orchestrator_step_def step_defs num_workers_def new_worker_def
        work_capacity_def dict_get_def upt_rec base_solve_events_def solve_events_def
        record_events_def relax_events_def)
  show ?thesis using 1 2 3 replicate_waits [OF 1 2] by simp
qed


subsection \<open>The wait marker\<close>

lemma submitted_append: "submitted (xs @ ys) = submitted xs @ submitted ys"
  by (induction xs rule: submitted.induct) simp_all

lemma submitted_alive_report [simp]: "submitted (alive_report ws) = []"
  by (induction ws) (simp_all add: alive_report_def)

lemma pulls_append: "pulls (xs @ ys) = pulls xs + pulls ys"
  by (simp add: pulls_def)

lemma starved_worker_step: "starved s \<Longrightarrow> worker_step i s = s"
  by (auto simp: starved_def worker_step_def Let_def queue_get_def list_all_length)

lemma starved_orchestrator_step:
  assumes "starved s" and "\<not> stop_resolving env (vector_manager s)"
    and "\<not> internal_stop (self s)"
  shows "starved (orchestrator_step env s)
    \<and> vector_manager (orchestrator_step env s) = vector_manager s
    \<and> self (orchestrator_step env s) = self s
    \<and> pulls (events (orchestrator_step env s)) = pulls (events s)
    \<and> submitted (events (orchestrator_step env s)) = submitted (events s)
    \<and> recorded (events (orchestrator_step env s)) = recorded (events s)"
  using assms
  by (auto simp: starved_def orchestrator_step_def step_defs queue_get_def pulls_def
      recorded_append submitted_append)


lemma starved_exec:
  assumes "starved s" and "\<not> stop_resolving env (vector_manager s)"
    and "\<not> internal_stop (self s)"
  shows "starved (exec env a s)
    \<and> vector_manager (exec env a s) = vector_manager s
    \<and> self (exec env a s) = self s
    \<and> pulls (events (exec env a s)) = pulls (events s)
    \<and> submitted (events (exec env a s)) = submitted (events s)
    \<and> recorded (events (exec env a s)) = recorded (events s)"
proof (cases a)
  case Orchestrator
  then show ?thesis using starved_orchestrator_step [OF assms] by (simp add: exec_def)
next
  case (Worker_proc i)
  then show ?thesis using starved_worker_step [OF assms(1)] assms(1) by (simp add: exec_def)
next
  case (Seconds_pass d)
  then show ?thesis using assms(1) by (simp add: exec_def starved_def)
qed

lemma starved_run:
  assumes "starved s" and "\<not> stop_resolving env (vector_manager s)"
    and "\<not> internal_stop (self s)"
  shows "starved (run env sched s)
    \<and> pulls (events (run env sched s)) = pulls (events s)
    \<and> submitted (events (run env sched s)) = submitted (events s)
    \<and> recorded (events (run env sched s)) = recorded (events s)"
  using assms
proof (induction sched arbitrary: s)
  case Nil
  then show ?case by simp
next
  case (Cons a sched)
  note e = starved_exec [OF Cons.prems, of a]
  have "starved (exec env a s)" "\<not> stop_resolving env (vector_manager (exec env a s))"
    "\<not> internal_stop (self (exec env a s))"
    using e Cons.prems by simp_all
  from Cons.IH [OF this] e show ?case by simp
qed

text \<open>
  Claim C7. With a generator whose second pull yields the wait marker, after one round
  in which worker 0 solves the first candidate the result has been read and processed
  (iteration 1 is recorded) and the orchestrator is back at the loop test with the wait
  marker as current candidate; a third pull would yield an instance. Yet in every
  continuation of the run the current candidate stays the wait marker, the generator has
  been pulled twice only, nothing but candidate 0 is submitted, no further iteration is
  recorded and the run never finishes.
\<close>

theorem waiting_is_never_left:
  "cur_instance (run waiting_env (round_with 0) (loop_entry waiting_env example_config)) = Waiting
   \<and> recorded (events (run waiting_env (round_with 0) (loop_entry waiting_env example_config)))
       = [(0, 1)]
   \<and> pc (run waiting_env (round_with 0) (loop_entry waiting_env example_config)) = Loop_test
   \<and> next_instance waiting_env 2 = Some (Instance 2, 3)
   \<and> (\<forall>sched.
         cur_instance (run waiting_env (round_with 0 @ sched)
            (loop_entry waiting_env example_config)) = Waiting
       \<and> pulls (events (run waiting_env (round_with 0 @ sched)
            (loop_entry waiting_env example_config))) = 2
       \<and> submitted (events (run waiting_env (round_with 0 @ sched)
            (loop_entry waiting_env example_config))) = [0]
       \<and> recorded (events (run waiting_env (round_with 0 @ sched)
            (loop_entry waiting_env example_config))) = [(0, 1)]
       \<and> pc (run waiting_env (round_with 0 @ sched)
            (loop_entry waiting_env example_config)) \<noteq> Finished)"
proof -
  let ?s = "run waiting_env (round_with 0) (loop_entry waiting_env example_config)"
  have c: "cur_instance ?s = Waiting" "work_queue ?s = []" "result_queue ?s = []"
    "list_all (\<lambda>w. wstate w = Receiving) (workers ?s)" "pc ?s = Loop_test"
    "\<not> stop_resolving waiting_env (vector_manager ?s)" "\<not> internal_stop (self ?s)"
    "pulls (events ?s) = 2" "submitted (events ?s) = [0]" "recorded (events ?s) = [(0, 1)]"
    by (simp_all add: loop_entry_def constructed_def init_def example_config_def init_solver_def
        start_setup_def waiting_env_def example_env_def Let_def round_with_def exec_def
        orchestrator_step_def worker_step_def step_defs num_workers_def new_worker_def
        work_capacity_def result_capacity_def dict_get_def upt_rec base_solve_events_def
        solve_events_def record_events_def relax_events_def pulls_def)
  have st: "starved ?s" using c by (simp add: starved_def)
  have n: "next_instance waiting_env 2 = Some (Instance 2, 3)"
    by (simp add: waiting_env_def example_env_def)
  have "cur_instance (run waiting_env (round_with 0 @ sched)
            (loop_entry waiting_env example_config)) = Waiting
       \<and> pulls (events (run waiting_env (round_with 0 @ sched)
            (loop_entry waiting_env example_config))) = 2
       \<and> submitted (events (run waiting_env (round_with 0 @ sched)
            (loop_entry waiting_env example_config))) = [0]
       \<and> recorded (events (run waiting_env (round_with 0 @ sched)
            (loop_entry waiting_env example_config))) = [(0, 1)]
       \<and> pc (run waiting_env (round_with 0 @ sched)
            (loop_entry waiting_env example_config)) \<noteq> Finished" for sched
  proof -
    note r = starved_run [OF st c(6) c(7), of sched]
    have "starved (run waiting_env sched ?s)" using r by simp
    then have "cur_instance (run waiting_env sched ?s) = Waiting"
      and "pc (run waiting_env sched ?s) \<noteq> Finished"
      by (auto simp: starved_def)
    then show ?thesis using r c(8,9,10) by (simp add: run_append)
  qed
  then show ?thesis using c(1,5,10) n by blast
qed

subsection \<open>The time limit\<close>

lemma orchestrator_step_clock:
  "orchestrator_step env (s\<lparr>clock := t\<rparr>) = (orchestrator_step env s)\<lparr>clock := t\<rparr>"
  by (simp add: orchestrator_step_def step_defs Let_def
      split: pc.splits candidate.splits put_outcome.splits get_outcome.splits option.splits
        prod.splits)

lemma worker_step_clock:
  "worker_step i (s\<lparr>clock := t\<rparr>) = (worker_step i s)\<lparr>clock := t\<rparr>"
  by (simp add: worker_step_def Let_def
      split: wstate.splits put_outcome.splits get_outcome.splits option.splits)

lemma exec_clock:
  "\<not> passes_time a \<Longrightarrow> exec env a (s\<lparr>clock := t\<rparr>) = (exec env a s)\<lparr>clock := t\<rparr>"
  by (cases a) (simp_all add: exec_def orchestrator_step_clock worker_step_clock)

lemma run_clock:
  "run env (filter (\<lambda>a. \<not> passes_time a) sched) (s\<lparr>clock := t\<rparr>) = (run env sched s)\<lparr>clock := t\<rparr>"
proof (induction sched arbitrary: s)
  case Nil
  then show ?case by simp
next
  case (Cons a sched)
  show ?case
  proof (cases a)
    case (Seconds_pass d)
    then show ?thesis using Cons.IH [of "s\<lparr>clock := clock s + d\<rparr>"] by (simp add: exec_def)
  next
    case Orchestrator
    then show ?thesis using Cons.IH [of "exec env a s"] by (simp add: exec_clock)
  next
    case (Worker_proc i)
    then show ?thesis using Cons.IH [of "exec env a s"] by (simp add: exec_clock)
  qed
qed

lemma orchestrator_step_time_limit:
  "orchestrator_step env (s\<lparr>self := (self s)\<lparr>time_limit_hrs := h\<rparr>\<rparr>) =
     (orchestrator_step env s)\<lparr>self := (self (orchestrator_step env s))\<lparr>time_limit_hrs := h\<rparr>\<rparr>"
  by (simp add: orchestrator_step_def step_defs Let_def
      split: pc.splits candidate.splits put_outcome.splits get_outcome.splits option.splits
        prod.splits)

lemma worker_step_time_limit:
  "worker_step i (s\<lparr>self := (self s)\<lparr>time_limit_hrs := h\<rparr>\<rparr>) =
     (worker_step i s)\<lparr>self := (self (worker_step i s))\<lparr>time_limit_hrs := h\<rparr>\<rparr>"
  by (simp add: worker_step_def Let_def
      split: wstate.splits put_outcome.splits get_outcome.splits option.splits)

lemma exec_time_limit:
  "exec env a (s\<lparr>self := (self s)\<lparr>time_limit_hrs := h\<rparr>\<rparr>) =
     (exec env a s)\<lparr>self := (self (exec env a s))\<lparr>time_limit_hrs := h\<rparr>\<rparr>"
  by (cases a) (simp_all add: exec_def orchestrator_step_time_limit worker_step_time_limit)

lemma run_time_limit:
  "run env sched (s\<lparr>self := (self s)\<lparr>time_limit_hrs := h\<rparr>\<rparr>) =
     (run env sched s)\<lparr>self := (self (run env sched s))\<lparr>time_limit_hrs := h\<rparr>\<rparr>"
  by (induction sched arbitrary: s) (simp_all add: exec_time_limit)

lemma exec_keeps_time_limit: "time_limit_hrs (self (exec env a s)) = time_limit_hrs (self s)"
  by (cases a)
    (simp_all add: exec_def orchestrator_step_def step_defs worker_step_def Let_def
      split: pc.splits candidate.splits put_outcome.splits get_outcome.splits option.splits
        prod.splits wstate.splits)

lemma run_keeps_time_limit: "time_limit_hrs (self (run env sched s)) = time_limit_hrs (self s)"
  by (induction sched arbitrary: s) (simp_all add: exec_keeps_time_limit)


lemma init_time_limit:
  assumes "init c = (evs, Inr sq)"
  shows "time_limit_hrs sq = dict_get (key_time_limit_hrs (mga_inputs c)) 12"
  using assms by (auto simp: init_def split: if_splits prod.splits)

text \<open>
  Claim C3, as amended. The time limit is read from the configuration (twelve hours by
  default) and kept unchanged in the sequencer, but the loop never consults it, nor the
  time elapsed. In every run from the loop entry: leaving the passing of time out of the
  schedule gives the same state but for the clock; starting with another time limit gives
  the same state but for the limit stored; and at the loop test the orchestrator goes on
  to submit work exactly when the stop predicate of the vector manager is false and the
  iteration-limit flag is unset.
\<close>

theorem time_limit_is_never_consulted:
  assumes "init c = (evs, Inr sq)" and "start_setup env sq = Inr s0"
  shows "time_limit_hrs (self (run env sched s0)) =
           dict_get (key_time_limit_hrs (mga_inputs c)) 12
    \<and> run env (filter (\<lambda>a. \<not> passes_time a) sched) s0 = (run env sched s0)\<lparr>clock := clock s0\<rparr>
    \<and> run env sched (s0\<lparr>self := (self s0)\<lparr>time_limit_hrs := h\<rparr>\<rparr>) =
        (run env sched s0)\<lparr>self := (self (run env sched s0))\<lparr>time_limit_hrs := h\<rparr>\<rparr>
    \<and> (pc (run env sched s0) = Loop_test \<longrightarrow>
         pc (exec env Orchestrator (run env sched s0)) =
           (if \<not> stop_resolving env (vector_manager (run env sched s0))
               \<and> \<not> internal_stop (self (run env sched s0))
            then Put_instance else Shutdown_put 0))"
proof (intro conjI impI)
  show "time_limit_hrs (self (run env sched s0)) =
           dict_get (key_time_limit_hrs (mga_inputs c)) 12"
    using init_time_limit [OF assms(1)] start_setup_Inr(3) [OF assms(2)]
    by (simp add: run_keeps_time_limit)
  show "run env (filter (\<lambda>a. \<not> passes_time a) sched) s0 = (run env sched s0)\<lparr>clock := clock s0\<rparr>"
    using run_clock [where env = env and sched = sched and s = s0 and t = "clock s0"] by simp
  show "run env sched (s0\<lparr>self := (self s0)\<lparr>time_limit_hrs := h\<rparr>\<rparr>) =
        (run env sched s0)\<lparr>self := (self (run env sched s0))\<lparr>time_limit_hrs := h\<rparr>\<rparr>"
    by (rule run_time_limit)
next
  assume "pc (run env sched s0) = Loop_test"
  then show "pc (exec env Orchestrator (run env sched s0)) =
           (if \<not> stop_resolving env (vector_manager (run env sched s0))
               \<and> \<not> internal_stop (self (run env sched s0))
            then Put_instance else Shutdown_put 0)"
    by (simp add: exec_def orchestrator_step_def loop_test_def)
qed

lemma run_example_round:
  "pc (run example_env (Seconds_pass 50000 # round_with 0)
         (loop_entry example_env example_config)) = Loop_test"
  "clock (run example_env (Seconds_pass 50000 # round_with 0)
         (loop_entry example_env example_config)) = 50002"
  "recorded (events (run example_env (Seconds_pass 50000 # round_with 0)
         (loop_entry example_env example_config))) = [(0, 1)]"
  "\<not> internal_stop (self (run example_env (Seconds_pass 50000 # round_with 0)
         (loop_entry example_env example_config)))"
  by (simp_all add: loop_entry_def constructed_def init_def example_config_def init_solver_def
      start_setup_def example_env_def Let_def round_with_def exec_def
      orchestrator_step_def worker_step_def step_defs num_workers_def new_worker_def
      work_capacity_def result_capacity_def dict_get_def upt_rec base_solve_events_def
      solve_events_def record_events_def relax_events_def)

theorem time_limit_is_never_consulted_witness:
  "init example_config = (init_events example_config, Inr (constructed example_config))
   \<and> start_setup example_env (constructed example_config) =
       Inr (loop_entry example_env example_config)
   \<and> pc (run example_env (Seconds_pass 50000 # round_with 0)
         (loop_entry example_env example_config)) = Loop_test
   \<and> time_limit_hrs (self (run example_env (Seconds_pass 50000 # round_with 0)
         (loop_entry example_env example_config))) = 12
   \<and> pc (exec example_env Orchestrator (run example_env (Seconds_pass 50000 # round_with 0)
         (loop_entry example_env example_config))) = Put_instance"
proof -
  have d: "dict_get (key_time_limit_hrs (mga_inputs example_config)) 12 = 12"
    by (simp add: example_config_def dict_get_def)
  have st: "\<not> stop_resolving example_env g" for g by (simp add: example_env_def)
  show ?thesis
    using time_limit_is_never_consulted [OF init_example loop_entry_example,
        where sched = "Seconds_pass 50000 # round_with 0"]
      init_example loop_entry_example run_example_round(1,4) d st
    by simp
qed

text \<open>
  Claim C3 as stated fails: with the default limit of twelve hours (43200 seconds) and a
  stop predicate that is always false, a run whose clock stands at 50002 seconds at the
  loop test goes on to submit work, and records a second iteration in the round after.
\<close>

theorem loop_continues_past_time_limit:
  "time_limit_hrs (self (run example_env (Seconds_pass 50000 # round_with 0)
         (loop_entry example_env example_config))) = 12
   \<and> clock (run example_env (Seconds_pass 50000 # round_with 0)
         (loop_entry example_env example_config)) = 50002
   \<and> 12 * 3600 < (50002 :: nat)
   \<and> pc (run example_env (Seconds_pass 50000 # round_with 0)
         (loop_entry example_env example_config)) = Loop_test
   \<and> pc (run example_env (Seconds_pass 50000 # round_with 0 @ [Orchestrator])
         (loop_entry example_env example_config)) = Put_instance
   \<and> recorded (events (run example_env (Seconds_pass 50000 # round_with 0 @ round_with 1)
         (loop_entry example_env example_config))) = [(0, 1), (1, 2)]"
  by (simp add: loop_entry_def constructed_def init_def example_config_def init_solver_def
      start_setup_def example_env_def Let_def round_with_def exec_def
      orchestrator_step_def worker_step_def step_defs num_workers_def new_worker_def
      work_capacity_def result_capacity_def dict_get_def upt_rec base_solve_events_def
      solve_events_def record_events_def relax_events_def)

subsection \<open>Submitting a candidate\<close>

lemma count_alive_report [simp]: "count_list (alive_report ws) Next_instance = 0"
  by (induction ws) (simp_all add: alive_report_def)








end
